theory Spec2Isabelle
  imports Complex_Main "HOL-Library.Sublist"
begin

section \<open>JavaScript strings\<close>

text \<open>
  A JavaScript string is a sequence of UTF-16 code units. The model covers the strings
  whose code units lie in U+0000..U+00FF, one \<^typ>\<open>char\<close> per code unit; every string
  literal of the program that takes part in a decision (flags, header names, file
  extensions, status texts) is ASCII.
\<close>

definition sq :: char where "sq = CHR 0x27"
definition dq :: char where "dq = CHR 0x22"
definition bsl :: char where "bsl = CHR 0x5C"
definition nl :: char where "nl = CHR 0x0A"

text \<open>White space and line terminators of ECMAScript below U+0100: what \<open>\s\<close> matches
  and what \<open>trim\<close> strips.\<close>

definition isSpace :: "char \<Rightarrow> bool" where
  "isSpace c = (c \<in> set [CHR 0x09, CHR 0x0A, CHR 0x0B, CHR 0x0C, CHR 0x0D, CHR 0x20, CHR 0xA0])"

definition upperLetters :: string where
  "upperLetters = ''ABCDEFGHIJKLMNOPQRSTUVWXYZ'' @
     [CHR 0xC0, CHR 0xC1, CHR 0xC2, CHR 0xC3, CHR 0xC4, CHR 0xC5, CHR 0xC6, CHR 0xC7,
      CHR 0xC8, CHR 0xC9, CHR 0xCA, CHR 0xCB, CHR 0xCC, CHR 0xCD, CHR 0xCE, CHR 0xCF,
      CHR 0xD0, CHR 0xD1, CHR 0xD2, CHR 0xD3, CHR 0xD4, CHR 0xD5, CHR 0xD6,
      CHR 0xD8, CHR 0xD9, CHR 0xDA, CHR 0xDB, CHR 0xDC, CHR 0xDD, CHR 0xDE]"

definition lowerLetters :: string where
  "lowerLetters = ''abcdefghijklmnopqrstuvwxyz'' @
     [CHR 0xE0, CHR 0xE1, CHR 0xE2, CHR 0xE3, CHR 0xE4, CHR 0xE5, CHR 0xE6, CHR 0xE7,
      CHR 0xE8, CHR 0xE9, CHR 0xEA, CHR 0xEB, CHR 0xEC, CHR 0xED, CHR 0xEE, CHR 0xEF,
      CHR 0xF0, CHR 0xF1, CHR 0xF2, CHR 0xF3, CHR 0xF4, CHR 0xF5, CHR 0xF6,
      CHR 0xF8, CHR 0xF9, CHR 0xFA, CHR 0xFB, CHR 0xFC, CHR 0xFD, CHR 0xFE]"

definition toLowerChar :: "char \<Rightarrow> char" where
  "toLowerChar c = (case map_of (zip upperLetters lowerLetters) c of Some l \<Rightarrow> l | None \<Rightarrow> c)"

text \<open>\<open>String.prototype.toLowerCase\<close>: below U+0100 every upper-case letter has a
  lower-case partner in the same range, so the length never changes.\<close>

definition toLowerCase :: "string \<Rightarrow> string" where
  "toLowerCase s = map toLowerChar s"

text \<open>\<open>String.prototype.trim\<close>.\<close>

definition trim :: "string \<Rightarrow> string" where
  "trim s = rev (dropWhile isSpace (rev (dropWhile isSpace s)))"

text \<open>\<open>s.startsWith(t)\<close> and \<open>s.includes(t)\<close>: \<open>includes\<close> tries every start position
  from the left.\<close>

definition startsWith :: "string \<Rightarrow> string \<Rightarrow> bool" where
  "startsWith s t = prefix t s"

fun includesStr :: "string \<Rightarrow> string \<Rightarrow> bool" where
  "includesStr [] t = (t = [])"
| "includesStr (c # cs) t = (prefix t (c # cs) \<or> includesStr cs t)"

definition endsWith :: "string \<Rightarrow> string \<Rightarrow> bool" where
  "endsWith s t = suffix t s"

text \<open>\<open>s.split(sep)\<close> for a one-character separator.\<close>

fun splitOn :: "char \<Rightarrow> string \<Rightarrow> string list" where
  "splitOn sep [] = [[]]"
| "splitOn sep (c # cs) =
     (if c = sep then [] # splitOn sep cs
      else (case splitOn sep cs of [] \<Rightarrow> [[c]] | p # ps \<Rightarrow> (c # p) # ps))"

text \<open>\<open>s.padStart(targetLength, padString)\<close>.\<close>

definition padStart :: "string \<Rightarrow> nat \<Rightarrow> string \<Rightarrow> string" where
  "padStart s targetLength padString =
     (if targetLength \<le> length s \<or> padString = [] then s
      else take (targetLength - length s)
             (concat (replicate (targetLength - length s) padString)) @ s)"

section \<open>Regular expressions\<close>

text \<open>
  The regular expressions of the program are sequences of single-character steps: a
  literal, \<open>\s\<close> or a negated one-character class, taken once or under a greedy \<open>*\<close> or
  \<open>+\<close>, inside the one capturing group or outside it. \<open>run\<close> matches a pattern at the
  start of a string the way a backtracking engine does (a greedy step first takes as
  much as it can and gives back one character at a time) and returns the text of the
  group and the rest of the string. \<open>canonicalize\<close> is the case folding of the \<open>i\<close> flag:
  the upper-case partner where it is a single code unit; two letters below U+0100 have
  theirs above that range.
\<close>

definition canonicalize :: "char \<Rightarrow> nat" where
  "canonicalize c = (if c = CHR 0xB5 then 924 else if c = CHR 0xFF then 376
     else of_char (case map_of (zip lowerLetters upperLetters) c of Some u \<Rightarrow> u | None \<Rightarrow> c))"

datatype atom = Chr char | Space | NotChr char

datatype quant = Once | ZeroOrMore | OneOrMore

datatype step = Step atom quant bool

record regex =
  ignoreCase :: bool
  steps :: "step list"

definition amatch :: "bool \<Rightarrow> atom \<Rightarrow> char \<Rightarrow> bool" where
  "amatch ic a c = (case a of
       Chr p \<Rightarrow> if ic then canonicalize c = canonicalize p else c = p
     | Space \<Rightarrow> isSpace c
     | NotChr p \<Rightarrow> if ic then canonicalize c \<noteq> canonicalize p else c \<noteq> p)"

definition keep :: "bool \<Rightarrow> char \<Rightarrow> (string \<times> string) option \<Rightarrow> (string \<times> string) option" where
  "keep cap c r = (case r of None \<Rightarrow> None | Some (g, rest) \<Rightarrow> Some (if cap then c # g else g, rest))"

fun run :: "bool \<Rightarrow> step list \<Rightarrow> string \<Rightarrow> (string \<times> string) option" where
  "run ic [] s = Some ([], s)"
| "run ic (Step a Once cap # ps) [] = None"
| "run ic (Step a Once cap # ps) (c # cs) =
     (if amatch ic a c then keep cap c (run ic ps cs) else None)"
| "run ic (Step a OneOrMore cap # ps) [] = None"
| "run ic (Step a OneOrMore cap # ps) (c # cs) =
     (if amatch ic a c then keep cap c (run ic (Step a ZeroOrMore cap # ps) cs) else None)"
| "run ic (Step a ZeroOrMore cap # ps) [] = run ic ps []"
| "run ic (Step a ZeroOrMore cap # ps) (c # cs) =
     (if amatch ic a c
      then (case keep cap c (run ic (Step a ZeroOrMore cap # ps) cs) of
              Some r \<Rightarrow> Some r
            | None \<Rightarrow> run ic ps (c # cs))
      else run ic ps (c # cs))"

fun exec :: "regex \<Rightarrow> string \<Rightarrow> string option" where
  "exec re [] = map_option fst (run (ignoreCase re) (steps re) [])"
| "exec re (c # cs) =
     (case run (ignoreCase re) (steps re) (c # cs) of
        Some (g, rest) \<Rightarrow> Some g
      | None \<Rightarrow> exec re cs)"

text \<open>\<open>s.match(re)\<close> is the leftmost match; \<open>s.replace(re, rep)\<close> with the \<open>g\<close> flag
  replaces every match, scanning on after each one.\<close>

function replaceAll :: "regex \<Rightarrow> string \<Rightarrow> string \<Rightarrow> string" where
  "replaceAll re rep [] =
     (case run (ignoreCase re) (steps re) [] of Some m \<Rightarrow> rep | None \<Rightarrow> [])"
| "replaceAll re rep (c # cs) =
     (case run (ignoreCase re) (steps re) (c # cs) of
        None \<Rightarrow> c # replaceAll re rep cs
      | Some (g, rest) \<Rightarrow>
          if length rest < length (c # cs) then rep @ replaceAll re rep rest
          else rep @ c # replaceAll re rep cs)"
  by pat_completeness auto
termination
  by (relation "measure (\<lambda>(re, rep, s). length s)") auto

declare replaceAll.simps [simp del]


section \<open>JavaScript numbers and dates\<close>

text \<open>
  The numbers that reach the code below are the results of \<open>parseInt\<close> and of the
  getters of \<open>Date\<close>: an integer or NaN. \<open>numberToString\<close> is \<open>String(n)\<close>, also what a
  template literal inserts. It is the text of the number for NaN and for the safe
  integers, those up to \<open>2^53 - 1\<close> in absolute value (\<open>safeInteger\<close>, the test of
  \<open>Number.isSafeInteger\<close>, with NaN let through): these print as their decimal digits.
  Larger numbers print with rounded digits or with an exponent (\<open>1e+21\<close>), which
  \<open>numberToString\<close> does not give; every result below that reads the digits of a
  number assumes \<open>safeInteger\<close> of it.
\<close>

datatype jsNumber = NaN | Integer int

fun showNat :: "nat \<Rightarrow> string" where
  "showNat n = (if n < 10 then [''0123456789'' ! n]
                else showNat (n div 10) @ [''0123456789'' ! (n mod 10)])"

declare showNat.simps [simp del]

definition numberToString :: "jsNumber \<Rightarrow> string" where
  "numberToString n = (case n of NaN \<Rightarrow> ''NaN''
     | Integer i \<Rightarrow> if i < 0 then ''-'' @ showNat (nat (- i)) else showNat (nat i))"

definition safeInteger :: "jsNumber \<Rightarrow> bool" where
  "safeInteger n = (case n of NaN \<Rightarrow> True | Integer i \<Rightarrow> \<bar>i\<bar> \<le> 9007199254740991)"

definition numberTruthy :: "jsNumber \<Rightarrow> bool" where
  "numberTruthy n = (case n of NaN \<Rightarrow> False | Integer i \<Rightarrow> i \<noteq> 0)"

definition plusOne :: "jsNumber \<Rightarrow> jsNumber" where
  "plusOne n = (case n of NaN \<Rightarrow> NaN | Integer i \<Rightarrow> Integer (i + 1))"

text \<open>
  A \<open>Date\<close> as its getters see it: an invalid date, or the local year, month (0 to 11) and
  day of the month (1 to 31). The time value of a \<open>Date\<close> is at most \<open>8.64e15\<close>
  milliseconds from the epoch, which keeps the year between -271821 and 275760;
  \<open>dateInRange\<close> is that invariant of the getters.
\<close>

datatype Date = InvalidDate | LocalDate int nat nat

definition dateInRange :: "Date \<Rightarrow> bool" where
  "dateInRange d = (case d of InvalidDate \<Rightarrow> True
     | LocalDate y m dd \<Rightarrow> - 271821 \<le> y \<and> y \<le> 275760 \<and> m < 12 \<and> 1 \<le> dd \<and> dd \<le> 31)"

definition getFullYear :: "Date \<Rightarrow> jsNumber" where
  "getFullYear d = (case d of InvalidDate \<Rightarrow> NaN | LocalDate y m dd \<Rightarrow> Integer y)"

definition getMonth :: "Date \<Rightarrow> jsNumber" where
  "getMonth d = (case d of InvalidDate \<Rightarrow> NaN | LocalDate y m dd \<Rightarrow> Integer (int m))"

definition getDate :: "Date \<Rightarrow> jsNumber" where
  "getDate d = (case d of InvalidDate \<Rightarrow> NaN | LocalDate y m dd \<Rightarrow> Integer (int dd))"

section \<open>JSON values and the run-time library\<close>

text \<open>
  A value produced by \<open>JSON.parse\<close>. \<open>JObject\<close> lists the own properties of the object,
  each key once. \<open>JNumber\<close> carries the value of a finite number; only whether it is zero
  is ever looked at.
\<close>

datatype json = JNull | JBool bool | JNumber rat | JString string
  | JArray "json list" | JObject "(string \<times> json) list"

fun truthy :: "json \<Rightarrow> bool" where
  "truthy JNull = False"
| "truthy (JBool b) = b"
| "truthy (JNumber q) = (q \<noteq> 0)"
| "truthy (JString s) = (s \<noteq> [])"
| "truthy (JArray xs) = True"
| "truthy (JObject kvs) = True"

text \<open>A thrown value: an \<open>Error\<close> with its name and message.\<close>

datatype exn = Exn (name: string) (message: string)

text \<open>\<open>String(error)\<close>, that is \<open>Error.prototype.toString\<close>.\<close>

definition exnToString :: "exn \<Rightarrow> string" where
  "exnToString e = (if name e = [] then message e
                    else if message e = [] then name e
                    else name e @ '': '' @ message e)"

text \<open>
  \<open>v.key\<close> for a key that no built-in prototype defines (save_playback, contents,
  authorization, cookie): a TypeError on null, the own property of an object, undefined
  (\<open>None\<close>) otherwise.
\<close>

fun getField :: "json \<Rightarrow> string \<Rightarrow> exn + json option" where
  "getField JNull k = Inl (Exn ''TypeError'' [])"
| "getField (JObject kvs) k = Inr (map_of kvs k)"
| "getField v k = Inr None"

text \<open>
  The built-in functions of the run time that the program calls are parameters of the
  model: \<open>JSON.parse\<close> (\<open>None\<close> when it throws a SyntaxError),
  \<open>JSON.stringify(v, null, 2)\<close>, and the comparison \<open>v > 0\<close> on a parsed value.
\<close>

record runtime =
  JSON_parse :: "string \<Rightarrow> json option"
  JSON_stringify :: "json \<Rightarrow> string"
  greaterThanZero :: "json \<Rightarrow> bool"

section \<open>Types of the API (src/types/index.ts)\<close>

record AuthInfo =
  authorization :: string
  cookie :: string

record Building =
  building_id :: int
  building_name :: string

record Campus =
  campus_id :: int
  campus_name :: string
  building_list :: "Building list"

record VideoCourse =
  id' :: string
  title :: string
  realname :: string
  sub_id :: string
  sub_title :: string
  sub_content :: "string option"
  course_begin :: string
  course_over :: string
  room_name :: string
  lecturer_name :: string
  sub_duration :: string

record Course =
  id' :: string
  title :: string
  realname :: string
  course_begin :: string
  course_over :: string
  room_name :: string
  sub_id :: string
  sub_title :: string
  sub_status :: string
  course_student_type :: string
  lecturer_name :: string

record TimeSlot =
  id' :: int
  name :: string
  class_begin :: int
  class_end :: int
  class_begin_time :: string
  class_end_time :: string
  list :: "Course list"

text \<open>
  The three responses share one envelope. The code tests \<open>sub_content\<close> of a video
  course and \<open>list\<close> of a video response for presence, so both are optional there.
\<close>

record 'a Response =
  code :: int
  msg :: string
  total :: string
  list :: 'a

type_synonym BuildingsResponse = "Campus list Response"
type_synonym CoursesResponse = "TimeSlot list Response"
type_synonym VideoResponse = "VideoCourse list option Response"

section \<open>HTTP (src/utils/http.ts)\<close>

text \<open>
  \<open>fetch\<close> is the transport: it rejects, or it answers with a status and a body whose
  \<open>json()\<close> either throws or yields the data. \<open>httpGet\<close> builds the request and turns the
  answer into data or a thrown error.
\<close>

record Request =
  httpMethod :: string
  url :: string
  headers :: "(string \<times> string) list"

datatype 'a reply = Rejected exn | Responded nat "exn + 'a"

definition httpGetRequest :: "string \<Rightarrow> AuthInfo option \<Rightarrow> Request" where
  "httpGetRequest u authInfo =
     \<lparr> httpMethod = ''GET'', url = u,
       headers =
         [(''accept'', ''application/json, text/plain, */*''),
          (''accept-language'', ''zh-CN,zh;q=0.9''),
          (''cache-control'', ''no-cache''),
          (''pragma'', ''no-cache''),
          (''user-agent'', ''Mozilla/5.0 (X11; Linux x86_64) AppleWebKit/537.36 (KHTML, like Gecko) Chrome/141.0.0.0 Safari/537.36'')]
         @ (case authInfo of None \<Rightarrow> []
            | Some a \<Rightarrow> [(''authorization'', authorization a), (''cookie'', cookie a)]) \<rparr>"

definition response_ok :: "nat \<Rightarrow> bool" where
  "response_ok status = (200 \<le> status \<and> status \<le> 299)"

definition httpGet :: "'a reply \<Rightarrow> exn + 'a" where
  "httpGet r = (case r of
       Rejected e \<Rightarrow> Inl e
     | Responded status body \<Rightarrow>
         if \<not> response_ok status
         then Inl (Exn ''Error'' (''HTTP error! status: '' @ showNat status))
         else body)"

definition formatDate :: "Date \<Rightarrow> string" where
  "formatDate date =
     (let year = getFullYear date;
          month = padStart (numberToString (plusOne (getMonth date))) 2 ''0'';
          day = padStart (numberToString (getDate date)) 2 ''0''
      in numberToString year @ ''-'' @ month @ ''-'' @ day)"

section \<open>API calls (src/api)\<close>

definition BUILDINGS_API :: string where
  "BUILDINGS_API = ''https://onlineroomse.pku.edu.cn/courseapi/v2/schedule/search-building?need_format=1&tenant=1''"

definition getBuildingsRequest :: "AuthInfo \<Rightarrow> Request" where
  "getBuildingsRequest authInfo = httpGetRequest BUILDINGS_API (Some authInfo)"

text \<open>getCourses: the URL it builds and the request it hands to httpGet.\<close>

definition getCoursesUrl :: "Date \<Rightarrow> jsNumber option \<Rightarrow> string" where
  "getCoursesUrl date buildingId =
     (let dateStr = formatDate date;
          u = ''https://onlineroomse.pku.edu.cn/courseapi/v2/course-live/search-live-course-list?need_time_quantum=1&unique_course=1&with_sub_duration=1&search_time=''
              @ dateStr @ ''&tenant=226&course_student_type=&sub_live_status=&with_sub_data=1''
      in (case buildingId of
            None \<Rightarrow> u
          | Some b \<Rightarrow> if numberTruthy b then u @ ''&building_in='' @ numberToString b else u))"

definition getCoursesRequest :: "AuthInfo \<Rightarrow> Date \<Rightarrow> jsNumber option \<Rightarrow> Request" where
  "getCoursesRequest authInfo date buildingId =
     httpGetRequest (getCoursesUrl date buildingId) (Some authInfo)"

definition getVideoInfoRequest :: "AuthInfo \<Rightarrow> string \<Rightarrow> string \<Rightarrow> Request" where
  "getVideoInfoRequest authInfo courseId subId =
     httpGetRequest
       (''https://yjapise.pku.edu.cn/courseapi/v2/schedule/search-live-course-list?all=1&course_id=''
        @ courseId @ ''&sub_id='' @ subId
        @ ''&with_sub_data=1&with_room_data=1&show_all=1&show_delete=2'')
       (Some authInfo)"

text \<open>
  extractVideoUrl. The body of the \<open>try\<close> block either throws, returns a value, or falls
  through; the \<open>catch\<close> logs and falls through to \<open>return null\<close>.
\<close>

definition extractVideoUrl_try :: "runtime \<Rightarrow> string \<Rightarrow> exn + json option" where
  "extractVideoUrl_try rt subContentStr =
     (if subContentStr = [] then Inr None
      else case JSON_parse rt subContentStr of
        None \<Rightarrow> Inl (Exn ''SyntaxError'' [])
      | Some subContent \<Rightarrow>
          (case getField subContent ''save_playback'' of
             Inl e \<Rightarrow> Inl e
           | Inr None \<Rightarrow> Inr None
           | Inr (Some savePlayback) \<Rightarrow>
               if \<not> truthy savePlayback then Inr None
               else (case getField savePlayback ''contents'' of
                       Inl e \<Rightarrow> Inl e
                     | Inr None \<Rightarrow> Inr None
                     | Inr (Some contents) \<Rightarrow>
                         if truthy contents then Inr (Some contents) else Inr None)))"

definition extractVideoUrl :: "runtime \<Rightarrow> VideoResponse \<Rightarrow> exn + json option" where
  "extractVideoUrl rt videoResponse =
     (case Response.list videoResponse of
        None \<Rightarrow> Inr None
      | Some [] \<Rightarrow> Inr None
      | Some (first # rest) \<Rightarrow>
          (case sub_content first of
             None \<Rightarrow> Inr None
           | Some subContentStr \<Rightarrow>
               if subContentStr = [] then Inr None
               else (case extractVideoUrl_try rt subContentStr of
                       Inl error \<Rightarrow> Inr None
                     | Inr r \<Rightarrow> Inr r)))"

section \<open>Credential extraction (utils/auth, parseCurlCommand)\<close>

definition lit :: "char \<Rightarrow> step" where "lit c = Step (Chr c) Once False"
definition lits :: "string \<Rightarrow> step list" where "lits s = map lit s"
definition ws0 :: step where "ws0 = Step Space ZeroOrMore False"
definition ws1 :: step where "ws1 = Step Space OneOrMore False"
definition capNot :: "char \<Rightarrow> step" where "capNot q = Step (NotChr q) OneOrMore True"

text \<open>The three regular expressions of the normalisation: \<open>/\\\s*\n\s*/g\<close>,
  \<open>/\\\n/g\<close> and \<open>/\s+/g\<close>.\<close>

definition reContinuation :: regex where
  "reContinuation = \<lparr> ignoreCase = False, steps = [lit bsl, ws0, lit nl, ws0] \<rparr>"

definition reBackslashNewline :: regex where
  "reBackslashNewline = \<lparr> ignoreCase = False, steps = [lit bsl, lit nl] \<rparr>"

definition reSpaces :: regex where
  "reSpaces = \<lparr> ignoreCase = False, steps = [ws1] \<rparr>"

definition normalize :: "string \<Rightarrow> string" where
  "normalize curlCommand =
     trim (replaceAll reSpaces '' ''
       (replaceAll reBackslashNewline '' ''
         (replaceAll reContinuation '' '' curlCommand)))"

text \<open>
  The four authorization patterns differ in the flag and the quote only:
  \<open>/-H\s+'authorization:\s*Bearer\s+([^']+)'/i\<close> and its variants; so do the cookie
  patterns, \<open>/-b\s+'([^']+)'/\<close> and \<open>/-H\s+'cookie:\s*([^']+)'/i\<close> with theirs.
\<close>

definition bearer :: "string \<Rightarrow> char \<Rightarrow> regex" where
  "bearer flag q = \<lparr> ignoreCase = True,
     steps = lits flag @ [ws1, lit q] @ lits ''authorization:'' @ [ws0] @ lits ''Bearer''
             @ [ws1, capNot q, lit q] \<rparr>"

definition authPatterns :: "regex list" where
  "authPatterns = [bearer ''-H'' sq, bearer ''-H'' dq, bearer ''--header'' sq, bearer ''--header'' dq]"

definition cookieFlag :: "string \<Rightarrow> char \<Rightarrow> regex" where
  "cookieFlag flag q = \<lparr> ignoreCase = False, steps = lits flag @ [ws1, lit q, capNot q, lit q] \<rparr>"

definition cookieHeader :: "string \<Rightarrow> char \<Rightarrow> regex" where
  "cookieHeader flag q = \<lparr> ignoreCase = True,
     steps = lits flag @ [ws1, lit q] @ lits ''cookie:'' @ [ws0, capNot q, lit q] \<rparr>"

definition cookiePatterns :: "regex list" where
  "cookiePatterns =
     [cookieFlag ''-b'' sq, cookieFlag ''-b'' dq, cookieFlag ''--cookie'' sq, cookieFlag ''--cookie'' dq,
      cookieHeader ''-H'' sq, cookieHeader ''-H'' dq,
      cookieHeader ''--header'' sq, cookieHeader ''--header'' dq]"

fun findAuthorization :: "regex list \<Rightarrow> string \<Rightarrow> string" where
  "findAuthorization [] n = []"
| "findAuthorization (pattern # rest) n =
     (case exec pattern n of
        Some g \<Rightarrow> if g \<noteq> [] then ''Bearer '' @ trim g else findAuthorization rest n
      | None \<Rightarrow> findAuthorization rest n)"

fun findCookie :: "regex list \<Rightarrow> string \<Rightarrow> string" where
  "findCookie [] n = []"
| "findCookie (pattern # rest) n =
     (case exec pattern n of
        Some g \<Rightarrow> if g \<noteq> [] then trim g else findCookie rest n
      | None \<Rightarrow> findCookie rest n)"

text \<open>The thrown error names \<open>missing.join\<close> inside a fixed message; the model keeps
  the list.\<close>

datatype extractionError = CannotExtract "string list"

definition parseCurlCommand :: "string \<Rightarrow> extractionError + AuthInfo" where
  "parseCurlCommand curlCommand =
     (let normalizedCommand = normalize curlCommand;
          authorization = findAuthorization authPatterns normalizedCommand;
          cookie = findCookie cookiePatterns normalizedCommand
      in if authorization = [] \<or> cookie = []
         then Inl (CannotExtract
                ((if authorization = [] then [''Authorization''] else []) @
                 (if cookie = [] then [''Cookie''] else [])))
         else Inr \<lparr> authorization = authorization, cookie = cookie \<rparr>)"



section \<open>Request descriptions\<close>

















section \<open>Credential store (utils/auth)\<close>

text \<open>
  The storage location is the file \<open>.pku-cli-auth.json\<close>: absent, or present with a
  content. Writing it succeeds.
\<close>

type_synonym store = "string option"

definition validateAuthInfo :: "AuthInfo \<Rightarrow> bool" where
  "validateAuthInfo authInfo =
     (startsWith (authorization authInfo) ''Bearer '' \<and> length (cookie authInfo) > 0)"

definition authInfoJson :: "AuthInfo \<Rightarrow> json" where
  "authInfoJson a =
     JObject [(''authorization'', JString (authorization a)), (''cookie'', JString (cookie a))]"

text \<open>
  validateAuthInfo at run time, on whatever \<open>JSON.parse\<close> returned: the cast to AuthInfo
  checks nothing, so a missing or mistyped field throws or compares as JavaScript does.
\<close>

definition validateParsed :: "runtime \<Rightarrow> json \<Rightarrow> exn + bool" where
  "validateParsed rt authInfo =
     (case getField authInfo ''authorization'' of
        Inl e \<Rightarrow> Inl e
      | Inr (Some (JString a)) \<Rightarrow>
          if \<not> startsWith a ''Bearer '' then Inr False
          else (case getField authInfo ''cookie'' of
                  Inl e \<Rightarrow> Inl e
                | Inr None \<Rightarrow> Inl (Exn ''TypeError'' [])
                | Inr (Some JNull) \<Rightarrow> Inl (Exn ''TypeError'' [])
                | Inr (Some (JString c)) \<Rightarrow> Inr (length c > 0)
                | Inr (Some (JArray xs)) \<Rightarrow> Inr (length xs > 0)
                | Inr (Some (JObject kvs)) \<Rightarrow>
                    (case map_of kvs ''length'' of
                       None \<Rightarrow> Inr False
                     | Some v \<Rightarrow> Inr (greaterThanZero rt v))
                | Inr (Some v) \<Rightarrow> Inr False)
      | Inr v \<Rightarrow> Inl (Exn ''TypeError'' []))"

definition saveAuthInfo :: "runtime \<Rightarrow> AuthInfo \<Rightarrow> store \<Rightarrow> store" where
  "saveAuthInfo rt authInfo st = Some (JSON_stringify rt (authInfoJson authInfo))"

definition deleteAuthInfo :: "store \<Rightarrow> store" where
  "deleteAuthInfo st = Some []"

definition loadAuthInfo_try :: "runtime \<Rightarrow> string \<Rightarrow> exn + json option" where
  "loadAuthInfo_try rt content =
     (case JSON_parse rt content of
        None \<Rightarrow> Inl (Exn ''SyntaxError'' [])
      | Some authInfo \<Rightarrow>
          (case validateParsed rt authInfo of
             Inl e \<Rightarrow> Inl e
           | Inr ok \<Rightarrow> if ok then Inr (Some authInfo) else Inr None))"

definition loadAuthInfo :: "runtime \<Rightarrow> store \<Rightarrow> json option \<times> store" where
  "loadAuthInfo rt st =
     (case st of
        None \<Rightarrow> (None, st)
      | Some content \<Rightarrow>
          (case loadAuthInfo_try rt content of
             Inl error \<Rightarrow> (None, deleteAuthInfo st)
           | Inr (Some authInfo) \<Rightarrow> (Some authInfo, st)
           | Inr None \<Rightarrow> (None, st)))"

section \<open>Course filter (src/index.ts, filterCourses)\<close>

definition filterCourses :: "Course list \<Rightarrow> string \<Rightarrow> Course list" where
  "filterCourses courses searchTerm =
     (if searchTerm = [] then courses
      else
        let term = trim (toLowerCase searchTerm)
        in filter (\<lambda>course.
             includesStr (toLowerCase (Course.title course)) term \<or>
             includesStr (toLowerCase (Course.lecturer_name course)) term \<or>
             includesStr (toLowerCase (Course.room_name course)) term) courses)"

section \<open>Video type (src/index.ts, main, line 390)\<close>

datatype videoType = M3u8 | Mp4

definition videoTypeOf :: "string \<Rightarrow> videoType" where
  "videoTypeOf videoUrl = (if includesStr videoUrl ''.m3u8'' then M3u8 else Mp4)"

text \<open>
  extractVideoUrl hands over whatever truthy value \<open>contents\<close> holds, so line 390 calls
  \<open>includes\<close> on a JSON value. A string answers as above. An array has an \<open>includes\<close> of
  its own, which looks for an element equal to the string. A number, \<open>true\<close> and an
  object have no such method: the call raises a TypeError.
\<close>

definition videoTypeOfValue :: "json \<Rightarrow> exn + videoType" where
  "videoTypeOfValue videoUrl =
     (case videoUrl of
        JString s \<Rightarrow> Inr (videoTypeOf s)
      | JArray xs \<Rightarrow> Inr (if JString ''.m3u8'' \<in> set xs then M3u8 else Mp4)
      | _ \<Rightarrow> Inl (Exn ''TypeError'' []))"

section \<open>The orchestrator (src/index.ts, handleApiError and main)\<close>

text \<open>
  The run is a function of the answers of its collaborators: the credential obtained by
  getAuthInfo, the replies of the three fetches and the answers to the prompts (a prompt
  can be cancelled). The prompts hand over converted values: the building choice is the
  optional buildingId, the date is the \<open>Date\<close>, the course choice is the value string of
  the chosen option. The model follows main up to the resolved video address and its
  type; what main does after that (display and download) is not part of it. Every step
  is inside the \<open>try\<close> of main, whose handler exits with status 1 on whatever is
  raised and not handled earlier. The world is the credential file together with the
  trace of fetches and store operations.
\<close>

datatype 'a prompt = Cancelled | Answer 'a

datatype event = Fetch Request | SaveAuthInfo | DeleteAuthInfo

record world =
  store :: store
  trace :: "event list"

datatype outcome = Exit int | VideoResolved json videoType

record script =
  authInfo :: AuthInfo
  buildingsReply :: "BuildingsResponse reply"
  buildingChoice :: "jsNumber option prompt"
  dateChoice :: "Date prompt"
  coursesReply :: "CoursesResponse reply"
  searchTermInput :: "string prompt"
  courseChoice :: "string prompt"
  videoReply :: "VideoResponse reply"

definition fetch :: "Request \<Rightarrow> world \<Rightarrow> world" where
  "fetch req w = w\<lparr> trace := trace w @ [Fetch req] \<rparr>"

definition handleApiError :: "exn \<Rightarrow> world \<Rightarrow> outcome \<times> world" where
  "handleApiError error w =
     (let errorMsg = (if message error \<noteq> [] then message error else exnToString error);
          w' = (if includesStr errorMsg ''401'' \<or> includesStr errorMsg ''403'' \<or>
                   includesStr errorMsg ''Unauthorized'' \<or> includesStr errorMsg ''Forbidden''
                then w\<lparr> store := deleteAuthInfo (store w), trace := trace w @ [DeleteAuthInfo] \<rparr>
                else w)
      in (Exit 1, w'))"

definition main_video :: "runtime \<Rightarrow> script \<Rightarrow> string \<Rightarrow> string \<Rightarrow> world \<Rightarrow> outcome \<times> world" where
  "main_video rt sc courseId subId w5 =
     (let w6 = fetch (getVideoInfoRequest (authInfo sc) courseId subId) w5
      in case httpGet (videoReply sc) of
           Inl error \<Rightarrow> handleApiError error w6
         | Inr videoResponse \<Rightarrow>
             if code videoResponse \<noteq> 0 then (Exit 1, w6)
             else (case extractVideoUrl rt videoResponse of
                     Inl error \<Rightarrow> (Exit 1, w6)
                   | Inr None \<Rightarrow> (Exit 1, w6)
                   | Inr (Some videoUrl) \<Rightarrow>
                       (case videoTypeOfValue videoUrl of
                          Inl error \<Rightarrow> (Exit 1, w6)
                        | Inr videoType \<Rightarrow> (VideoResolved videoUrl videoType, w6))))"

definition main_courses :: "runtime \<Rightarrow> script \<Rightarrow> Date \<Rightarrow> jsNumber option \<Rightarrow> world \<Rightarrow> outcome \<times> world" where
  "main_courses rt sc date buildingId w3 =
     (let w4 = fetch (getCoursesRequest (authInfo sc) date buildingId) w3
      in case httpGet (coursesReply sc) of
           Inl error \<Rightarrow> handleApiError error w4
         | Inr coursesResponse \<Rightarrow>
             if code coursesResponse \<noteq> 0 then (Exit 1, w4)
             else
               let allCourses = concat (map TimeSlot.list (Response.list coursesResponse))
               in if allCourses = [] then (Exit 0, w4)
                  else (case searchTermInput sc of
                          Cancelled \<Rightarrow> (Exit 0, w4)
                        | Answer searchTerm \<Rightarrow>
                            if filterCourses allCourses searchTerm = [] then (Exit 0, w4)
                            else (case courseChoice sc of
                                    Cancelled \<Rightarrow> (Exit 0, w4)
                                  | Answer selectedCourse \<Rightarrow>
                                      (case splitOn (CHR ''-'') selectedCourse of
                                         courseId # subId # parts \<Rightarrow> main_video rt sc courseId subId w4
                                       | [courseId] \<Rightarrow> main_video rt sc courseId [] w4
                                       | [] \<Rightarrow> main_video rt sc [] [] w4))))"

definition main :: "runtime \<Rightarrow> script \<Rightarrow> world \<Rightarrow> outcome \<times> world" where
  "main rt sc w0 =
     (let w1 = fetch (getBuildingsRequest (authInfo sc)) w0
      in case httpGet (buildingsReply sc) of
           Inl error \<Rightarrow> handleApiError error w1
         | Inr buildingsResponse \<Rightarrow>
             if code buildingsResponse \<noteq> 0
             then handleApiError (Exn ''Error'' (msg buildingsResponse)) w1
             else
               let w2 = w1\<lparr> store := saveAuthInfo rt (authInfo sc) (store w1),
                            trace := trace w1 @ [SaveAuthInfo] \<rparr>
               in (case buildingChoice sc of
                     Cancelled \<Rightarrow> (Exit 0, w2)
                   | Answer buildingId \<Rightarrow>
                       (case dateChoice sc of
                          Cancelled \<Rightarrow> (Exit 0, w2)
                        | Answer date \<Rightarrow> main_courses rt sc date buildingId w2)))"

section \<open>Sample data\<close>

definition mkCourse :: "string \<Rightarrow> string \<Rightarrow> string \<Rightarrow> Course" where
  "mkCourse t l r = \<lparr> Course.id' = ''1'', title = t, realname = l, course_begin = ''0'',
     course_over = ''0'', room_name = r, sub_id = ''1'', sub_title = [], sub_status = [],
     course_student_type = [], lecturer_name = l \<rparr>"

definition quoted :: "string \<Rightarrow> string" where
  "quoted s = dq # s @ [dq]"

definition sampleSubContent :: "string \<Rightarrow> string" where
  "sampleSubContent u = ''{'' @ quoted ''save_playback'' @ '':{'' @ quoted ''contents'' @ '':'' @ quoted u @ ''}}''"

definition sampleAuth :: AuthInfo where
  "sampleAuth = \<lparr> authorization = ''Bearer abc'', cookie = ''k=v'' \<rparr>"

definition sampleAuthFile :: string where
  "sampleAuthFile = ''{'' @ [nl] @ ''  '' @ quoted ''authorization'' @ '': '' @ quoted ''Bearer abc'' @ '','' @ [nl]
      @ ''  '' @ quoted ''cookie'' @ '': '' @ quoted ''k=v'' @ [nl] @ ''}''"

definition sampleRuntime :: runtime where
  "sampleRuntime = \<lparr>
     JSON_parse = map_of
       [(sampleSubContent ''https://x/y.mp4'',
           JObject [(''save_playback'', JObject [(''contents'', JString ''https://x/y.mp4'')])]),
        (sampleAuthFile, authInfoJson sampleAuth)],
     JSON_stringify = (\<lambda>v. if v = authInfoJson sampleAuth then sampleAuthFile else ''null''),
     greaterThanZero = (\<lambda>v. case v of JNumber q \<Rightarrow> q > 0 | JBool b \<Rightarrow> b | _ \<Rightarrow> False) \<rparr>"

definition mkVideoCourse :: "string option \<Rightarrow> VideoCourse" where
  "mkVideoCourse sc = \<lparr> VideoCourse.id' = ''1'', title = ''Algebra'', realname = ''N'', sub_id = ''2'',
     sub_title = [], sub_content = sc, course_begin = ''0'', course_over = ''0'',
     room_name = ''R1'', lecturer_name = ''N'', sub_duration = ''0'' \<rparr>"

definition mkVideoResponse :: "VideoCourse list option \<Rightarrow> VideoResponse" where
  "mkVideoResponse l = \<lparr> code = 0, msg = [], total = ''1'', list = l \<rparr>"

definition sampleBuildings :: BuildingsResponse where
  "sampleBuildings = \<lparr> code = 0, msg = [], total = ''1'',
     list = [\<lparr> campus_id = 1, campus_name = ''Main'',
               building_list = [\<lparr> building_id = 7, building_name = ''Hall'' \<rparr>] \<rparr>] \<rparr>"

definition sampleScript :: "CoursesResponse reply \<Rightarrow> script" where
  "sampleScript r = \<lparr> authInfo = sampleAuth,
     buildingsReply = Responded 200 (Inr sampleBuildings),
     buildingChoice = Answer None,
     dateChoice = Answer (LocalDate 2025 8 26),
     coursesReply = r,
     searchTermInput = Answer [],
     courseChoice = Answer ''1-2'',
     videoReply = Responded 200 (Inr (mkVideoResponse (Some [mkVideoCourse (Some (sampleSubContent ''https://x/y.mp4''))]))) \<rparr>"

definition unauthorizedCourses :: CoursesResponse where
  "unauthorizedCourses = \<lparr> code = 401, msg = ''Unauthorized'', total = [], list = [] \<rparr>"

definition world0 :: world where
  "world0 = \<lparr> store = None, trace = [] \<rparr>"






definition bearerOnly :: string where
  "bearerOnly = ''curl -H '' @ [sq] @ ''authorization: Bearer abc'' @ [sq]"

definition blankCookie :: string where
  "blankCookie = bearerOnly @ '' -b '' @ [sq] @ '' '' @ [sq]"

definition bearerAndCookie :: string where
  "bearerAndCookie = bearerOnly @ '' -b '' @ [sq] @ ''k=v'' @ [sq]"


section \<open>Facts about strings\<close>

lemma includesStr_iff_sublist: "includesStr s t \<longleftrightarrow> sublist t s"
  by (induction s) (auto simp: sublist_Cons_right)

lemma includesStr_Nil: "includesStr s []"
  by (simp add: includesStr_iff_sublist)

section \<open>Course filter: results\<close>

text \<open>
  C9, as stated, fails: the search term is trimmed before it is compared, so the term
  \<open>'' a''\<close> (a blank, then a) selects the course titled Algebra, although no field of that
  course contains a blank followed by a.
\<close>

theorem filterCourses_untrimmed_counterexample:
  "filterCourses [mkCourse ''Algebra'' ''Noether'' ''R101''] '' a''
     \<noteq> filter (\<lambda>c. sublist (toLowerCase '' a'') (toLowerCase (Course.title c)) \<or>
                    sublist (toLowerCase '' a'') (toLowerCase (Course.lecturer_name c)) \<or>
                    sublist (toLowerCase '' a'') (toLowerCase (Course.room_name c)))
          [mkCourse ''Algebra'' ''Noether'' ''R101'']"
  by (simp add: filterCourses_def mkCourse_def toLowerCase_def toLowerChar_def
      upperLetters_def lowerLetters_def trim_def isSpace_def
      includesStr_iff_sublist [symmetric])

text \<open>
  C9 (amended): for every course list and non-empty search term, filterCourses returns
  exactly the courses whose lower-cased title, lecturer name or room name contains, as a
  contiguous substring, the lower-cased search term with leading and trailing white space
  removed; the result keeps the order of the input list.
\<close>

theorem filterCourses_trimmed_term:
  "searchTerm \<noteq> [] \<Longrightarrow>
   filterCourses courses searchTerm =
     filter (\<lambda>c. sublist (trim (toLowerCase searchTerm)) (toLowerCase (Course.title c)) \<or>
                  sublist (trim (toLowerCase searchTerm)) (toLowerCase (Course.lecturer_name c)) \<or>
                  sublist (trim (toLowerCase searchTerm)) (toLowerCase (Course.room_name c))) courses"
  by (simp add: filterCourses_def includesStr_iff_sublist Let_def)

theorem filterCourses_trimmed_term_witness:
  "''ALGebra'' \<noteq> [] \<and>
   filterCourses [mkCourse ''Algebra'' ''A'' ''R1'', mkCourse ''Biology'' ''B'' ''R2'',
                  mkCourse ''Advanced Algebra'' ''C'' ''R3''] ''ALGebra''
     = [mkCourse ''Algebra'' ''A'' ''R1'', mkCourse ''Advanced Algebra'' ''C'' ''R3'']"
proof -
  have ne: "''ALGebra'' \<noteq> []" by simp
  show ?thesis
    unfolding filterCourses_trimmed_term [OF ne]
    by (simp add: mkCourse_def toLowerCase_def toLowerChar_def
      upperLetters_def lowerLetters_def trim_def isSpace_def
      includesStr_iff_sublist [symmetric])
qed

section \<open>Video type: results\<close>

text \<open>
  C2, as stated, fails: the test is \<open>includes\<close>, not \<open>endsWith\<close>. A URL with a query
  string after the playlist extension does not end with the extension and is segmented;
  a URL that ends in .mp4 and has the playlist extension earlier is segmented as well.
\<close>

theorem videoTypeOf_endsWith_counterexample:
  "videoTypeOf ''https://x/y.m3u8?t=1'' = M3u8 \<and> \<not> endsWith ''https://x/y.m3u8?t=1'' ''.m3u8''
   \<and> videoTypeOf ''https://x/a.m3u8/b.mp4'' = M3u8 \<and> endsWith ''https://x/a.m3u8/b.mp4'' ''.mp4''"
  by (simp add: videoTypeOf_def endsWith_def suffix_def)

text \<open>
  C2 (amended): for every resolved video URL the format is segmented exactly when the
  URL contains the playlist extension \<open>.m3u8\<close> somewhere, and progressive otherwise; in
  particular a URL that ends with the extension is segmented, and a URL ending in .mp4
  that does not contain the playlist extension is progressive.
\<close>

theorem videoTypeOf_contains:
  "(videoTypeOf videoUrl = M3u8 \<longleftrightarrow> (\<exists>pre post. videoUrl = pre @ ''.m3u8'' @ post)) \<and>
   (videoTypeOf videoUrl = Mp4 \<longleftrightarrow> \<not> (\<exists>pre post. videoUrl = pre @ ''.m3u8'' @ post)) \<and>
   (endsWith videoUrl ''.m3u8'' \<longrightarrow> videoTypeOf videoUrl = M3u8)"
  by (auto simp: videoTypeOf_def includesStr_iff_sublist sublist_def endsWith_def suffix_def)

theorem videoTypeOf_contains_witness:
  "endsWith ''https://x/y.m3u8'' ''.m3u8'' \<and> videoTypeOf ''https://x/y.m3u8'' = M3u8 \<and>
   videoTypeOf ''https://x/y.mp4'' = Mp4"
proof -
  have e: "endsWith ''https://x/y.m3u8'' ''.m3u8''"
    by (simp add: endsWith_def suffix_def)
  from videoTypeOf_contains [of "''https://x/y.m3u8''"] e
  have "videoTypeOf ''https://x/y.m3u8'' = M3u8" by blast
  moreover have "videoTypeOf ''https://x/y.mp4'' = Mp4"
    by (simp add: videoTypeOf_def)
  ultimately show ?thesis using e by simp
qed

section \<open>Schedule request: results\<close>

lemma showNat_digit: "n < 10 \<Longrightarrow> showNat n = [''0123456789'' ! n]"
  by (simp add: showNat.simps)

lemma showNat_step: "10 \<le> n \<Longrightarrow> showNat n = showNat (n div 10) @ [''0123456789'' ! (n mod 10)]"
  by (subst showNat.simps) simp

lemma showNat_four:
  "1000 \<le> n \<Longrightarrow> n \<le> 9999 \<Longrightarrow>
   showNat n = [''0123456789'' ! (n div 1000), ''0123456789'' ! (n div 100 mod 10),
                ''0123456789'' ! (n div 10 mod 10), ''0123456789'' ! (n mod 10)]"
proof -
  assume a: "1000 \<le> n" "n \<le> 9999"
  have 1: "showNat n = showNat (n div 10) @ [''0123456789'' ! (n mod 10)]"
    using a by (intro showNat_step) simp
  have 2: "showNat (n div 10) = showNat (n div 100) @ [''0123456789'' ! (n div 10 mod 10)]"
    using a showNat_step [of "n div 10"] by (simp add: div_mult2_eq [symmetric])
  have 3: "showNat (n div 100) = showNat (n div 1000) @ [''0123456789'' ! (n div 100 mod 10)]"
    using a showNat_step [of "n div 100"] by (simp add: div_mult2_eq [symmetric])
  have 4: "showNat (n div 1000) = [''0123456789'' ! (n div 1000)]"
    using a by (intro showNat_digit) simp
  show ?thesis by (simp add: 1 2 3 4)
qed

lemma showNat_two: "n < 100 \<Longrightarrow> padStart (showNat n) 2 ''0'' = [''0123456789'' ! (n div 10), ''0123456789'' ! (n mod 10)]"
  by (cases "n < 10") (simp_all add: showNat_step showNat_digit padStart_def)

text \<open>
  C5, as stated, fails in two places. The building parameter is appended when
  \<open>buildingId\<close> is truthy, not when it is present: with \<open>buildingId = 0\<close> the query has
  no \<open>building_in\<close>. And the date is not always of the form YYYY-MM-DD: the year is
  printed as it is, so the first of January of the year 999 (what \<open>new Date\<close> makes of
  the input 0999-01-01) gives 999-01-01, and an invalid date (the input 2025-13-45)
  gives NaN-NaN-NaN.
\<close>

theorem getCourses_building_counterexample:
  "url (getCoursesRequest sampleAuth (LocalDate 2025 8 26) (Some (Integer 0))) =
     ''https://onlineroomse.pku.edu.cn/courseapi/v2/course-live/search-live-course-list?need_time_quantum=1&unique_course=1&with_sub_duration=1&search_time=2025-09-26&tenant=226&course_student_type=&sub_live_status=&with_sub_data=1''
   \<and> \<not> includesStr (url (getCoursesRequest sampleAuth (LocalDate 2025 8 26) (Some (Integer 0)))) ''building_in''
   \<and> dateInRange (LocalDate 999 0 1) \<and> formatDate (LocalDate 999 0 1) = ''999-01-01''
   \<and> dateInRange InvalidDate \<and> formatDate InvalidDate = ''NaN-NaN-NaN''"
  by code_simp

text \<open>
  C5 (amended): for every credential, date and optional buildingId, getCourses issues a
  GET. For a date in the range of \<open>Date\<close> its query carries \<open>search_time\<close> as formatDate
  of the date, and \<open>building_in\<close> is appended, last, exactly when buildingId is present and
  is neither 0 nor NaN, with the decimal digits of a buildingId that is a safe integer;
  otherwise the query ends after \<open>with_sub_data=1\<close> and all buildings are queried. For a
  valid date with a year from 1000 to 9999, formatDate is the four digits of the year, the
  two digits of the month and the two digits of the day, zero-padded, joined by hyphens.
\<close>

theorem getCourses_request:
  "httpMethod (getCoursesRequest a date b) = ''GET'' \<and>
   (dateInRange date \<longrightarrow>
      (b = None \<or> b = Some NaN \<or> b = Some (Integer 0) \<longrightarrow>
         url (getCoursesRequest a date b) =
           ''https://onlineroomse.pku.edu.cn/courseapi/v2/course-live/search-live-course-list?need_time_quantum=1&unique_course=1&with_sub_duration=1&search_time=''
           @ formatDate date @ ''&tenant=226&course_student_type=&sub_live_status=&with_sub_data=1'') \<and>
      (\<forall>n. b = Some n \<and> n \<noteq> NaN \<and> n \<noteq> Integer 0 \<longrightarrow>
         (\<exists>v. url (getCoursesRequest a date b) =
           ''https://onlineroomse.pku.edu.cn/courseapi/v2/course-live/search-live-course-list?need_time_quantum=1&unique_course=1&with_sub_duration=1&search_time=''
           @ formatDate date @ ''&tenant=226&course_student_type=&sub_live_status=&with_sub_data=1''
           @ ''&building_in='' @ v \<and>
           (safeInteger n \<longrightarrow> v = numberToString n)))) \<and>
   (1000 \<le> y \<and> y \<le> 9999 \<and> m < 12 \<and> 1 \<le> d \<and> d \<le> 31 \<longrightarrow>
      formatDate (LocalDate (int y) m d) =
        [''0123456789'' ! (y div 1000), ''0123456789'' ! (y div 100 mod 10),
         ''0123456789'' ! (y div 10 mod 10), ''0123456789'' ! (y mod 10)] @ ''-''
        @ [''0123456789'' ! ((m + 1) div 10), ''0123456789'' ! ((m + 1) mod 10)] @ ''-''
        @ [''0123456789'' ! (d div 10), ''0123456789'' ! (d mod 10)])"
proof -
  have 1: "httpMethod (getCoursesRequest a date b) = ''GET''"
    by (simp add: getCoursesRequest_def httpGetRequest_def)
  have 2: "url (getCoursesRequest a date b) =
     ''https://onlineroomse.pku.edu.cn/courseapi/v2/course-live/search-live-course-list?need_time_quantum=1&unique_course=1&with_sub_duration=1&search_time=''
     @ formatDate date @ ''&tenant=226&course_student_type=&sub_live_status=&with_sub_data=1''
     @ (case b of None \<Rightarrow> [] | Some n \<Rightarrow>
          if n = NaN \<or> n = Integer 0 then [] else ''&building_in='' @ numberToString n)"
    by (simp add: getCoursesRequest_def httpGetRequest_def getCoursesUrl_def Let_def
        numberTruthy_def split: option.splits jsNumber.splits)
  have u1: "url (getCoursesRequest a date b) =
           ''https://onlineroomse.pku.edu.cn/courseapi/v2/course-live/search-live-course-list?need_time_quantum=1&unique_course=1&with_sub_duration=1&search_time=''
           @ formatDate date @ ''&tenant=226&course_student_type=&sub_live_status=&with_sub_data=1''"
    if "b = None \<or> b = Some NaN \<or> b = Some (Integer 0)"
    using that by (auto simp: 2)
  have u2: "\<exists>v. url (getCoursesRequest a date b) =
           ''https://onlineroomse.pku.edu.cn/courseapi/v2/course-live/search-live-course-list?need_time_quantum=1&unique_course=1&with_sub_duration=1&search_time=''
           @ formatDate date @ ''&tenant=226&course_student_type=&sub_live_status=&with_sub_data=1''
           @ ''&building_in='' @ v \<and>
           (safeInteger n \<longrightarrow> v = numberToString n)"
    if "b = Some n \<and> n \<noteq> NaN \<and> n \<noteq> Integer 0" for n
    using that 2 by (intro exI [of _ "numberToString n"]) simp
  have 3: "formatDate (LocalDate (int y) m d) =
        [''0123456789'' ! (y div 1000), ''0123456789'' ! (y div 100 mod 10),
         ''0123456789'' ! (y div 10 mod 10), ''0123456789'' ! (y mod 10)] @ ''-''
        @ [''0123456789'' ! ((m + 1) div 10), ''0123456789'' ! ((m + 1) mod 10)] @ ''-''
        @ [''0123456789'' ! (d div 10), ''0123456789'' ! (d mod 10)]"
    if "1000 \<le> y" "y \<le> 9999" "m < 12" "1 \<le> d" "d \<le> 31"
  proof -
    have a: "padStart (showNat (Suc m)) 2 ''0'' = [''0123456789'' ! (Suc m div 10), ''0123456789'' ! (Suc m mod 10)]"
      using that by (intro showNat_two) simp
    have b: "padStart (showNat d) 2 ''0'' = [''0123456789'' ! (d div 10), ''0123456789'' ! (d mod 10)]"
      using that by (intro showNat_two) simp
    have c: "showNat y = [''0123456789'' ! (y div 1000), ''0123456789'' ! (y div 100 mod 10),
                ''0123456789'' ! (y div 10 mod 10), ''0123456789'' ! (y mod 10)]"
      using that by (intro showNat_four)
    show ?thesis
      using a b c
      by (simp add: formatDate_def getFullYear_def getMonth_def getDate_def plusOne_def
          numberToString_def Let_def nat_add_distrib)
  qed
  from 1 u1 u2 3 show ?thesis by blast
qed

theorem getCourses_request_witness:
  "dateInRange (LocalDate 2025 8 26) \<and> safeInteger (Integer 12) \<and>
   (1000::nat) \<le> 2025 \<and> (2025::nat) \<le> 9999 \<and> (8::nat) < 12 \<and> (1::nat) \<le> 26 \<and> (26::nat) \<le> 31 \<and>
   formatDate (LocalDate 2025 8 26) = ''2025-09-26'' \<and>
   url (getCoursesRequest sampleAuth (LocalDate 2025 8 26) (Some (Integer 12))) =
     ''https://onlineroomse.pku.edu.cn/courseapi/v2/course-live/search-live-course-list?need_time_quantum=1&unique_course=1&with_sub_duration=1&search_time=2025-09-26&tenant=226&course_student_type=&sub_live_status=&with_sub_data=1&building_in=12'' \<and>
   url (getCoursesRequest sampleAuth (LocalDate 2025 8 26) None) =
     ''https://onlineroomse.pku.edu.cn/courseapi/v2/course-live/search-live-course-list?need_time_quantum=1&unique_course=1&with_sub_duration=1&search_time=2025-09-26&tenant=226&course_student_type=&sub_live_status=&with_sub_data=1''"
proof -
  have r: "dateInRange (LocalDate 2025 8 26)" by (simp add: dateInRange_def)
  have s: "safeInteger (Integer 12)" by (simp add: safeInteger_def)
  have n: "numberToString (Integer 12) = ''12''" by code_simp
  note t = getCourses_request [of sampleAuth "LocalDate 2025 8 26" "Some (Integer 12)" 2025 8 26]
  from t have f: "formatDate (LocalDate 2025 8 26) = ''2025-09-26''" by simp
  from t r obtain v where
    v: "url (getCoursesRequest sampleAuth (LocalDate 2025 8 26) (Some (Integer 12))) =
           ''https://onlineroomse.pku.edu.cn/courseapi/v2/course-live/search-live-course-list?need_time_quantum=1&unique_course=1&with_sub_duration=1&search_time=''
           @ formatDate (LocalDate 2025 8 26) @ ''&tenant=226&course_student_type=&sub_live_status=&with_sub_data=1''
           @ ''&building_in='' @ v"
    and "safeInteger (Integer 12) \<longrightarrow> v = numberToString (Integer 12)"
    by auto
  with s n have "v = ''12''" by simp
  with v f have u: "url (getCoursesRequest sampleAuth (LocalDate 2025 8 26) (Some (Integer 12))) =
     ''https://onlineroomse.pku.edu.cn/courseapi/v2/course-live/search-live-course-list?need_time_quantum=1&unique_course=1&with_sub_duration=1&search_time=2025-09-26&tenant=226&course_student_type=&sub_live_status=&with_sub_data=1&building_in=12''"
    by simp
  from getCourses_request [of sampleAuth "LocalDate 2025 8 26" None] r f
  have w: "url (getCoursesRequest sampleAuth (LocalDate 2025 8 26) None) =
     ''https://onlineroomse.pku.edu.cn/courseapi/v2/course-live/search-live-course-list?need_time_quantum=1&unique_course=1&with_sub_duration=1&search_time=2025-09-26&tenant=226&course_student_type=&sub_live_status=&with_sub_data=1''"
    by simp
  from r s f u w show ?thesis by simp
qed

section \<open>Video address: results\<close>

lemma extractVideoUrl_Some_iff:
  "extractVideoUrl rt v = Inr (Some u) \<longleftrightarrow>
     (\<exists>first rest s j sp. Response.list v = Some (first # rest) \<and> sub_content first = Some s \<and> s \<noteq> [] \<and>
        JSON_parse rt s = Some j \<and> getField j ''save_playback'' = Inr (Some sp) \<and> truthy sp \<and>
        getField sp ''contents'' = Inr (Some u) \<and> truthy u)"
  by (auto simp: extractVideoUrl_def extractVideoUrl_try_def
      split: option.splits list.splits sum.splits if_splits)

lemma extractVideoUrl_Inr: "\<exists>r. extractVideoUrl rt v = Inr r"
  by (auto simp: extractVideoUrl_def split: option.splits list.splits sum.splits)


text \<open>
  C3: extractVideoUrl never raises. Its result is absent exactly when the list is absent
  or empty, or the first entry's \<open>sub_content\<close> is absent or empty or does not parse, or
  the parsed value has no truthy \<open>save_playback\<close>, or \<open>save_playback\<close> has no truthy
  \<open>contents\<close>; otherwise the result is the \<open>contents\<close> value.
\<close>

theorem extractVideoUrl_total:
  "(\<exists>r. extractVideoUrl rt v = Inr r) \<and>
   (extractVideoUrl rt v = Inr None \<longleftrightarrow>
      Response.list v = None \<or> Response.list v = Some [] \<or>
      (\<exists>first rest. Response.list v = Some (first # rest) \<and>
         (sub_content first = None \<or> sub_content first = Some [] \<or>
          (\<exists>s. sub_content first = Some s \<and>
             (JSON_parse rt s = None \<or>
              (\<exists>j. JSON_parse rt s = Some j \<and>
                 ((\<forall>sp. getField j ''save_playback'' = Inr (Some sp) \<longrightarrow> \<not> truthy sp) \<or>
                  (\<exists>sp. getField j ''save_playback'' = Inr (Some sp) \<and>
                     (\<forall>u. getField sp ''contents'' = Inr (Some u) \<longrightarrow> \<not> truthy u))))))))) \<and>
   (\<forall>first rest s j sp u.
      Response.list v = Some (first # rest) \<and> sub_content first = Some s \<and> s \<noteq> [] \<and>
      JSON_parse rt s = Some j \<and> getField j ''save_playback'' = Inr (Some sp) \<and> truthy sp \<and>
      getField sp ''contents'' = Inr (Some u) \<and> truthy u
      \<longrightarrow> extractVideoUrl rt v = Inr (Some u))"
proof (intro conjI)
  show "\<exists>r. extractVideoUrl rt v = Inr r" by (rule extractVideoUrl_Inr)
  show "\<forall>first rest s j sp u.
      Response.list v = Some (first # rest) \<and> sub_content first = Some s \<and> s \<noteq> [] \<and>
      JSON_parse rt s = Some j \<and> getField j ''save_playback'' = Inr (Some sp) \<and> truthy sp \<and>
      getField sp ''contents'' = Inr (Some u) \<and> truthy u
      \<longrightarrow> extractVideoUrl rt v = Inr (Some u)"
    using extractVideoUrl_Some_iff [of rt v] by blast
  show "extractVideoUrl rt v = Inr None \<longleftrightarrow>
      Response.list v = None \<or> Response.list v = Some [] \<or>
      (\<exists>first rest. Response.list v = Some (first # rest) \<and>
         (sub_content first = None \<or> sub_content first = Some [] \<or>
          (\<exists>s. sub_content first = Some s \<and>
             (JSON_parse rt s = None \<or>
              (\<exists>j. JSON_parse rt s = Some j \<and>
                 ((\<forall>sp. getField j ''save_playback'' = Inr (Some sp) \<longrightarrow> \<not> truthy sp) \<or>
                  (\<exists>sp. getField j ''save_playback'' = Inr (Some sp) \<and>
                     (\<forall>u. getField sp ''contents'' = Inr (Some u) \<longrightarrow> \<not> truthy u))))))))"
    by (auto simp: extractVideoUrl_def extractVideoUrl_try_def
        split: option.splits list.splits sum.splits if_splits)
qed

theorem extractVideoUrl_total_witness:
  "Response.list (mkVideoResponse (Some [mkVideoCourse (Some (sampleSubContent ''https://x/y.mp4''))]))
     = Some (mkVideoCourse (Some (sampleSubContent ''https://x/y.mp4'')) # []) \<and>
   sub_content (mkVideoCourse (Some (sampleSubContent ''https://x/y.mp4''))) = Some (sampleSubContent ''https://x/y.mp4'') \<and>
   sampleSubContent ''https://x/y.mp4'' \<noteq> [] \<and>
   JSON_parse sampleRuntime (sampleSubContent ''https://x/y.mp4'')
     = Some (JObject [(''save_playback'', JObject [(''contents'', JString ''https://x/y.mp4'')])]) \<and>
   extractVideoUrl sampleRuntime
     (mkVideoResponse (Some [mkVideoCourse (Some (sampleSubContent ''https://x/y.mp4''))]))
     = Inr (Some (JString ''https://x/y.mp4'')) \<and>
   JSON_parse sampleRuntime ''not json'' = None \<and>
   extractVideoUrl sampleRuntime (mkVideoResponse (Some [mkVideoCourse (Some ''not json'')])) = Inr None \<and>
   extractVideoUrl sampleRuntime (mkVideoResponse (Some [mkVideoCourse (Some [])])) = Inr None"
proof -
  let ?s = "sampleSubContent ''https://x/y.mp4''"
  let ?j = "JObject [(''save_playback'', JObject [(''contents'', JString ''https://x/y.mp4'')])]"
  have p: "JSON_parse sampleRuntime ?s = Some ?j"
    by (simp add: sampleRuntime_def)
  have ne: "?s \<noteq> []" by (simp add: sampleSubContent_def)
  have q: "JSON_parse sampleRuntime ''not json'' = None"
    by (simp add: sampleRuntime_def sampleSubContent_def sampleAuthFile_def quoted_def)
  have l: "Response.list (mkVideoResponse (Some [mkVideoCourse (Some ?s)])) = Some (mkVideoCourse (Some ?s) # [])"
    "sub_content (mkVideoCourse (Some ?s)) = Some ?s"
    by (simp_all add: mkVideoResponse_def mkVideoCourse_def)
  have g: "getField ?j ''save_playback'' = Inr (Some (JObject [(''contents'', JString ''https://x/y.mp4'')]))"
    "truthy (JObject [(''contents'', JString ''https://x/y.mp4'')])"
    "getField (JObject [(''contents'', JString ''https://x/y.mp4'')]) ''contents'' = Inr (Some (JString ''https://x/y.mp4''))"
    "truthy (JString ''https://x/y.mp4'')"
    by simp_all
  from extractVideoUrl_total [of sampleRuntime "mkVideoResponse (Some [mkVideoCourse (Some ?s)])"] l ne p g
  have 1: "extractVideoUrl sampleRuntime (mkVideoResponse (Some [mkVideoCourse (Some ?s)]))
     = Inr (Some (JString ''https://x/y.mp4''))"
    by blast
  have l2: "Response.list (mkVideoResponse (Some [mkVideoCourse (Some ''not json'')])) = Some (mkVideoCourse (Some ''not json'') # [])"
    "sub_content (mkVideoCourse (Some ''not json'')) = Some ''not json''"
    by (simp_all add: mkVideoResponse_def mkVideoCourse_def)
  from extractVideoUrl_total [of sampleRuntime "mkVideoResponse (Some [mkVideoCourse (Some ''not json'')])"] l2 q
  have 2: "extractVideoUrl sampleRuntime (mkVideoResponse (Some [mkVideoCourse (Some ''not json'')])) = Inr None"
    by blast
  have l3: "Response.list (mkVideoResponse (Some [mkVideoCourse (Some [])])) = Some (mkVideoCourse (Some []) # [])"
    "sub_content (mkVideoCourse (Some [])) = Some []"
    by (simp_all add: mkVideoResponse_def mkVideoCourse_def)
  from extractVideoUrl_total [of sampleRuntime "mkVideoResponse (Some [mkVideoCourse (Some [])])"] l3
  have 3: "extractVideoUrl sampleRuntime (mkVideoResponse (Some [mkVideoCourse (Some [])])) = Inr None"
    by blast
  from 1 2 3 l ne p q show ?thesis by simp
qed

text \<open>
  C10: extractVideoUrl looks at the first element of the list only: the rest of the list
  does not change the result, so when the first element yields no address the result is
  absent whatever the later elements hold.
\<close>

theorem extractVideoUrl_first_only:
  "extractVideoUrl rt (v\<lparr> Response.list := Some (first # rest) \<rparr>)
     = extractVideoUrl rt (v\<lparr> Response.list := Some [first] \<rparr>) \<and>
   (extractVideoUrl rt (v\<lparr> Response.list := Some [first] \<rparr>) = Inr None \<longrightarrow>
    extractVideoUrl rt (v\<lparr> Response.list := Some (first # rest) \<rparr>) = Inr None)"
  by (simp add: extractVideoUrl_def)

theorem extractVideoUrl_first_only_witness:
  "extractVideoUrl sampleRuntime (mkVideoResponse (Some [mkVideoCourse (Some ''not json'')])) = Inr None \<and>
   extractVideoUrl sampleRuntime
     (mkVideoResponse (Some [mkVideoCourse (Some (sampleSubContent ''https://x/y.mp4''))]))
     = Inr (Some (JString ''https://x/y.mp4'')) \<and>
   extractVideoUrl sampleRuntime
     (mkVideoResponse (Some [mkVideoCourse (Some ''not json''),
                             mkVideoCourse (Some (sampleSubContent ''https://x/y.mp4''))])) = Inr None"
proof -
  have q: "JSON_parse sampleRuntime ''not json'' = None"
    by (simp add: sampleRuntime_def sampleSubContent_def sampleAuthFile_def quoted_def)
  have p: "JSON_parse sampleRuntime (sampleSubContent ''https://x/y.mp4'')
     = Some (JObject [(''save_playback'', JObject [(''contents'', JString ''https://x/y.mp4'')])])"
    by (simp add: sampleRuntime_def)
  have ne: "sampleSubContent ''https://x/y.mp4'' \<noteq> []" by (simp add: sampleSubContent_def)
  have 1: "extractVideoUrl sampleRuntime
      ((mkVideoResponse None)\<lparr> Response.list := Some [mkVideoCourse (Some ''not json'')] \<rparr>) = Inr None"
    by (simp add: extractVideoUrl_def extractVideoUrl_try_def mkVideoResponse_def mkVideoCourse_def q)
  have 2: "extractVideoUrl sampleRuntime
     (mkVideoResponse (Some [mkVideoCourse (Some (sampleSubContent ''https://x/y.mp4''))]))
     = Inr (Some (JString ''https://x/y.mp4''))"
    by (simp add: extractVideoUrl_def extractVideoUrl_try_def mkVideoResponse_def mkVideoCourse_def p ne)
  from extractVideoUrl_first_only [where rt = sampleRuntime and v = "mkVideoResponse None"
      and first = "mkVideoCourse (Some ''not json'')"
      and rest = "[mkVideoCourse (Some (sampleSubContent ''https://x/y.mp4''))]"] 1
  have 3: "extractVideoUrl sampleRuntime
      ((mkVideoResponse None)\<lparr> Response.list := Some [mkVideoCourse (Some ''not json''),
                             mkVideoCourse (Some (sampleSubContent ''https://x/y.mp4''))] \<rparr>) = Inr None"
    by simp
  from 1 2 3 show ?thesis by (simp add: mkVideoResponse_def)
qed

section \<open>Credential store: results\<close>

text \<open>
  C6: for every valid credential, loading right after saving returns that credential and
  leaves the file as saved, given that \<open>JSON.parse\<close> reads back what \<open>JSON.stringify\<close>
  wrote for it.
\<close>

theorem save_load_roundtrip:
  assumes "validateAuthInfo c"
    and "JSON_parse rt (JSON_stringify rt (authInfoJson c)) = Some (authInfoJson c)"
  shows "loadAuthInfo rt (saveAuthInfo rt c st) = (Some (authInfoJson c), saveAuthInfo rt c st)"
  using assms
  by (simp add: loadAuthInfo_def saveAuthInfo_def loadAuthInfo_try_def validateParsed_def
      validateAuthInfo_def authInfoJson_def)

theorem save_load_roundtrip_witness:
  "validateAuthInfo sampleAuth \<and>
   JSON_parse sampleRuntime (JSON_stringify sampleRuntime (authInfoJson sampleAuth)) = Some (authInfoJson sampleAuth) \<and>
   loadAuthInfo sampleRuntime (saveAuthInfo sampleRuntime sampleAuth None)
     = (Some (authInfoJson sampleAuth), Some sampleAuthFile)"
proof -
  have v: "validateAuthInfo sampleAuth"
    by (simp add: validateAuthInfo_def sampleAuth_def startsWith_def)
  have s: "JSON_stringify sampleRuntime (authInfoJson sampleAuth) = sampleAuthFile"
    by (simp add: sampleRuntime_def)
  have "sampleAuthFile \<noteq> sampleSubContent ''https://x/y.mp4''"
    by (simp add: sampleAuthFile_def sampleSubContent_def quoted_def)
  then have p: "JSON_parse sampleRuntime sampleAuthFile = Some (authInfoJson sampleAuth)"
    by (simp add: sampleRuntime_def)
  from save_load_roundtrip [of sampleAuth sampleRuntime None] v p s
  have "loadAuthInfo sampleRuntime (saveAuthInfo sampleRuntime sampleAuth None)
     = (Some (authInfoJson sampleAuth), saveAuthInfo sampleRuntime sampleAuth None)"
    by simp
  then show ?thesis using v p s by (simp add: saveAuthInfo_def)
qed

text \<open>
  C7: when the stored content is not valid JSON, loadAuthInfo returns absent and leaves
  the file cleared (empty); the empty text is not valid JSON either, so the next load
  returns absent again and leaves the file empty.
\<close>

theorem load_garbage_self_heals:
  assumes "JSON_parse rt content = None" and "JSON_parse rt [] = None"
  shows "loadAuthInfo rt (Some content) = (None, Some []) \<and>
         loadAuthInfo rt (snd (loadAuthInfo rt (Some content))) = (None, Some [])"
  using assms
  by (simp add: loadAuthInfo_def loadAuthInfo_try_def deleteAuthInfo_def)

theorem load_garbage_self_heals_witness:
  "JSON_parse sampleRuntime ''not json'' = None \<and> JSON_parse sampleRuntime [] = None \<and>
   loadAuthInfo sampleRuntime (Some ''not json'') = (None, Some []) \<and>
   loadAuthInfo sampleRuntime (snd (loadAuthInfo sampleRuntime (Some ''not json''))) = (None, Some [])"
proof -
  have q: "JSON_parse sampleRuntime ''not json'' = None" "JSON_parse sampleRuntime [] = None"
    by (simp_all add: sampleRuntime_def sampleSubContent_def sampleAuthFile_def quoted_def)
  from load_garbage_self_heals [OF q] q show ?thesis by blast
qed

section \<open>Orchestrator: results\<close>

lemma showNat_200: "showNat 200 = ''200''" "showNat 401 = ''401''" by code_simp+

text \<open>
  C4 says that an authorization failure at any fetch step clears the stored credential
  before the run fails. An application-level failure of the schedule fetch (transport
  status 200, envelope code 401, message Unauthorized) ends the run with exit code 1 and
  leaves the credential saved after the buildings fetch in place: main calls
  handleApiError for a non-zero code of the buildings response, but not of the courses
  and video responses.
\<close>

theorem main_application_error_keeps_credential:
  "main sampleRuntime (sampleScript (Responded 200 (Inr unauthorizedCourses))) world0 =
     (Exit 1, \<lparr> store = Some sampleAuthFile,
                trace = [Fetch (getBuildingsRequest sampleAuth), SaveAuthInfo,
                         Fetch (getCoursesRequest sampleAuth (LocalDate 2025 8 26) None)] \<rparr>)"
  by (simp add: main_def main_courses_def sampleScript_def httpGet_def response_ok_def fetch_def
      world0_def sampleBuildings_def unauthorizedCourses_def saveAuthInfo_def sampleRuntime_def Let_def)

text \<open>A thrown error that is classified as an authorization failure does clear the
  credential, and the run stops without a later fetch.\<close>

lemma main_transport_401_clears_credential:
  "main sampleRuntime (sampleScript (Responded 401 (Inr unauthorizedCourses))) world0 =
     (Exit 1, \<lparr> store = Some [],
                trace = [Fetch (getBuildingsRequest sampleAuth), SaveAuthInfo,
                         Fetch (getCoursesRequest sampleAuth (LocalDate 2025 8 26) None),
                         DeleteAuthInfo] \<rparr>)"
  by (simp add: main_def main_courses_def sampleScript_def httpGet_def response_ok_def fetch_def
      world0_def sampleBuildings_def saveAuthInfo_def sampleRuntime_def Let_def
      handleApiError_def deleteAuthInfo_def showNat_200)

lemma handleApiError_authorization:
  "includesStr (message e) ''401'' \<or> includesStr (message e) ''403'' \<or>
   includesStr (message e) ''Unauthorized'' \<or> includesStr (message e) ''Forbidden'' \<Longrightarrow>
   handleApiError e w = (Exit 1, w\<lparr> store := Some [], trace := trace w @ [DeleteAuthInfo] \<rparr>)"
  by (auto simp: handleApiError_def Let_def deleteAuthInfo_def)

lemma main_buildings_application_error_clears:
  "httpGet (buildingsReply sc) = Inr b \<Longrightarrow> code b \<noteq> 0 \<Longrightarrow> includesStr (msg b) ''Unauthorized'' \<Longrightarrow>
   main rt sc w = (Exit 1, w\<lparr> store := Some [],
      trace := trace w @ [Fetch (getBuildingsRequest (authInfo sc)), DeleteAuthInfo] \<rparr>)"
  by (simp add: main_def Let_def handleApiError_authorization fetch_def)

lemma main_courses_thrown:
  "httpGet (coursesReply sc) = Inl e \<Longrightarrow>
   includesStr (message e) ''401'' \<or> includesStr (message e) ''403'' \<or>
   includesStr (message e) ''Unauthorized'' \<or> includesStr (message e) ''Forbidden'' \<Longrightarrow>
   main_courses rt sc date b w = (Exit 1, w\<lparr> store := Some [],
      trace := trace w @ [Fetch (getCoursesRequest (authInfo sc) date b), DeleteAuthInfo] \<rparr>)"
  by (simp add: main_courses_def Let_def handleApiError_authorization fetch_def)

section \<open>Matching: how the patterns run\<close>

lemma keep_simps [simp]:
  "keep False c r = r"
  "keep cap c None = None"
  "keep True c (Some (g, rest)) = Some (c # g, rest)"
  by (auto simp: keep_def split: option.splits)









lemma run_ws0_Nil: "run ic (ws0 # ps) [] = run ic ps []"
  by (simp add: ws0_def)

lemma run_ws0_other: "\<not> isSpace c \<Longrightarrow> run ic (ws0 # ps) (c # cs) = run ic ps (c # cs)"
  by (simp add: ws0_def amatch_def)






















lemma amatch_self [simp]: "amatch ic (Chr c) c"
  by (simp add: amatch_def)














section \<open>Normalisation of a wrapped description\<close>


































section \<open>Credential extraction: results\<close>







lemma findAuthorization_found:
  "findAuthorization ps n \<noteq> [] \<longleftrightarrow> (\<exists>p\<in>set ps. \<exists>g. exec p n = Some g \<and> g \<noteq> [])"
  by (induction ps) (auto split: option.splits)

lemma findCookie_none:
  "(\<forall>p\<in>set ps. \<forall>g. exec p n = Some g \<longrightarrow> g = []) \<Longrightarrow> findCookie ps n = []"
  by (induction ps) (auto split: option.splits)

lemma findCookie_first:
  "(\<forall>q\<in>set pre. \<forall>h. exec q n = Some h \<longrightarrow> h = []) \<Longrightarrow> exec p n = Some g \<Longrightarrow> g \<noteq> []
   \<Longrightarrow> findCookie (pre @ p # post) n = trim g"
  by (induction pre) (auto split: option.splits)

lemma first_match:
  "(\<forall>p\<in>set ps. \<forall>g. exec p n = Some g \<longrightarrow> g = []) \<or>
   (\<exists>pre p post g. ps = pre @ p # post \<and> (\<forall>q\<in>set pre. \<forall>h. exec q n = Some h \<longrightarrow> h = []) \<and>
      exec p n = Some g \<and> g \<noteq> [])"
proof (cases "\<exists>p\<in>set ps. \<exists>g. exec p n = Some g \<and> g \<noteq> []")
  case True
  from split_list_first_prop [OF True]
  obtain pre p post where "ps = pre @ p # post" "\<exists>g. exec p n = Some g \<and> g \<noteq> []"
    "\<forall>q\<in>set pre. \<not> (\<exists>g. exec q n = Some g \<and> g \<noteq> [])"
    by blast
  then show ?thesis by blast
next
  case False
  then show ?thesis by blast
qed

text \<open>
  C8, as stated, fails: the cookie that a pattern captured is trimmed before it is
  tested. In \<open>curl -H 'authorization: Bearer abc' -b ' '\<close> an authorization pattern and
  a cookie pattern both match, each with a non-empty group, and parseCurlCommand still
  fails, naming Cookie.
\<close>

theorem parseCurlCommand_blank_cookie_counterexample:
  "exec (bearer ''-H'' sq) (normalize blankCookie) = Some ''abc'' \<and>
   exec (cookieFlag ''-b'' sq) (normalize blankCookie) = Some '' '' \<and>
   bearer ''-H'' sq \<in> set authPatterns \<and> cookieFlag ''-b'' sq \<in> set cookiePatterns \<and>
   parseCurlCommand blankCookie = Inl (CannotExtract [''Cookie''])"
  by code_simp

text \<open>
  C8 (amended): parseCurlCommand fails exactly when the bearer token or the cookie is
  missing, and the error names exactly what is missing, Authorization before Cookie.
  The bearer token is missing when no authorization pattern matches the one-line form
  with a non-empty group. The cookie is missing when no cookie pattern matches with a
  non-empty group, or when the first cookie pattern that does, in the order of the list,
  captured white space only. When an authorization pattern matches and the first
  matching cookie pattern captured more than white space, parseCurlCommand returns a
  credential, whose cookie is that capture trimmed. One of the two cookie cases always
  applies.
\<close>

theorem parseCurlCommand_names_missing:
  "((\<forall>p\<in>set cookiePatterns. \<forall>g. exec p (normalize d) = Some g \<longrightarrow> g = []) \<longrightarrow>
      parseCurlCommand d = Inl (CannotExtract
        ((if \<exists>p\<in>set authPatterns. \<exists>g. exec p (normalize d) = Some g \<and> g \<noteq> [] then []
          else [''Authorization'']) @ [''Cookie'']))) \<and>
   (\<forall>pre p post g.
      cookiePatterns = pre @ p # post \<and>
      (\<forall>q\<in>set pre. \<forall>h. exec q (normalize d) = Some h \<longrightarrow> h = []) \<and>
      exec p (normalize d) = Some g \<and> g \<noteq> [] \<longrightarrow>
        (trim g = [] \<longrightarrow>
           parseCurlCommand d = Inl (CannotExtract
             ((if \<exists>p\<in>set authPatterns. \<exists>g. exec p (normalize d) = Some g \<and> g \<noteq> [] then []
               else [''Authorization'']) @ [''Cookie'']))) \<and>
        (trim g \<noteq> [] \<and> \<not> (\<exists>p\<in>set authPatterns. \<exists>g. exec p (normalize d) = Some g \<and> g \<noteq> []) \<longrightarrow>
           parseCurlCommand d = Inl (CannotExtract [''Authorization''])) \<and>
        (trim g \<noteq> [] \<and> (\<exists>p\<in>set authPatterns. \<exists>g. exec p (normalize d) = Some g \<and> g \<noteq> []) \<longrightarrow>
           (\<exists>a. parseCurlCommand d = Inr a \<and> cookie a = trim g))) \<and>
   ((\<forall>p\<in>set cookiePatterns. \<forall>g. exec p (normalize d) = Some g \<longrightarrow> g = []) \<or>
    (\<exists>pre p post g. cookiePatterns = pre @ p # post \<and>
       (\<forall>q\<in>set pre. \<forall>h. exec q (normalize d) = Some h \<longrightarrow> h = []) \<and>
       exec p (normalize d) = Some g \<and> g \<noteq> []))"
proof -
  let ?n = "normalize d"
  let ?A = "\<exists>p\<in>set authPatterns. \<exists>g. exec p ?n = Some g \<and> g \<noteq> []"
  have a: "findAuthorization authPatterns ?n \<noteq> [] \<longleftrightarrow> ?A"
    by (rule findAuthorization_found)
  have 1: "parseCurlCommand d = Inl (CannotExtract ((if ?A then [] else [''Authorization'']) @ [''Cookie'']))"
    if "\<forall>p\<in>set cookiePatterns. \<forall>g. exec p ?n = Some g \<longrightarrow> g = []"
  proof -
    from that have c: "findCookie cookiePatterns ?n = []" by (rule findCookie_none)
    show ?thesis
    proof (cases ?A)
      case True
      with a have "findAuthorization authPatterns ?n \<noteq> []" by blast
      with c True show ?thesis by (auto simp: parseCurlCommand_def Let_def)
    next
      case False
      with a have "findAuthorization authPatterns ?n = []" by blast
      with c False show ?thesis by (auto simp: parseCurlCommand_def Let_def)
    qed
  qed
  have 2: "(trim g = [] \<longrightarrow>
           parseCurlCommand d = Inl (CannotExtract ((if ?A then [] else [''Authorization'']) @ [''Cookie'']))) \<and>
        (trim g \<noteq> [] \<and> \<not> ?A \<longrightarrow> parseCurlCommand d = Inl (CannotExtract [''Authorization''])) \<and>
        (trim g \<noteq> [] \<and> ?A \<longrightarrow> (\<exists>a. parseCurlCommand d = Inr a \<and> cookie a = trim g))"
    if "cookiePatterns = pre @ p # post \<and>
      (\<forall>q\<in>set pre. \<forall>h. exec q ?n = Some h \<longrightarrow> h = []) \<and>
      exec p ?n = Some g \<and> g \<noteq> []" for pre p post g
  proof -
    from that have "findCookie (pre @ p # post) ?n = trim g"
      by (intro findCookie_first) simp_all
    with that have c: "findCookie cookiePatterns ?n = trim g" by simp
    show ?thesis
    proof (cases ?A)
      case True
      with a have "findAuthorization authPatterns ?n \<noteq> []" by blast
      with c True show ?thesis by (auto simp: parseCurlCommand_def Let_def)
    next
      case False
      with a have "findAuthorization authPatterns ?n = []" by blast
      with c False show ?thesis by (auto simp: parseCurlCommand_def Let_def)
    qed
  qed
  have 3: "(\<forall>p\<in>set cookiePatterns. \<forall>g. exec p ?n = Some g \<longrightarrow> g = []) \<or>
    (\<exists>pre p post g. cookiePatterns = pre @ p # post \<and>
       (\<forall>q\<in>set pre. \<forall>h. exec q ?n = Some h \<longrightarrow> h = []) \<and>
       exec p ?n = Some g \<and> g \<noteq> [])"
    by (rule first_match)
  from 1 2 3 show ?thesis by blast
qed

theorem parseCurlCommand_names_missing_witness:
  "map (\<lambda>p. exec p (normalize bearerOnly)) authPatterns = [Some ''abc'', None, None, None] \<and>
   map (\<lambda>p. exec p (normalize bearerOnly)) cookiePatterns = [None, None, None, None, None, None, None, None] \<and>
   parseCurlCommand bearerOnly = Inl (CannotExtract [''Cookie'']) \<and>
   map (\<lambda>p. exec p (normalize ''curl https://x.cn'')) authPatterns = [None, None, None, None] \<and>
   map (\<lambda>p. exec p (normalize ''curl https://x.cn'')) cookiePatterns = [None, None, None, None, None, None, None, None] \<and>
   parseCurlCommand ''curl https://x.cn'' = Inl (CannotExtract [''Authorization'', ''Cookie'']) \<and>
   map (\<lambda>p. exec p (normalize bearerAndCookie)) authPatterns = [Some ''abc'', None, None, None] \<and>
   map (\<lambda>p. exec p (normalize bearerAndCookie)) cookiePatterns = [Some ''k=v'', None, None, None, None, None, None, None] \<and>
   trim ''k=v'' = ''k=v'' \<and>
   (\<exists>a. parseCurlCommand bearerAndCookie = Inr a \<and> cookie a = ''k=v'')"
proof -
  have m: "bearer ''-H'' sq \<in> set authPatterns" by (simp add: authPatterns_def)
  have l1: "map (\<lambda>p. exec p (normalize bearerOnly)) authPatterns = [Some ''abc'', None, None, None]"
    by code_simp
  then have e1: "exec (bearer ''-H'' sq) (normalize bearerOnly) = Some ''abc''"
    by (simp add: authPatterns_def)
  with m have a1: "\<exists>p\<in>set authPatterns. \<exists>g. exec p (normalize bearerOnly) = Some g \<and> g \<noteq> []"
    by (intro bexI [of _ "bearer ''-H'' sq"]) auto
  have l2: "map (\<lambda>p. exec p (normalize bearerOnly)) cookiePatterns = [None, None, None, None, None, None, None, None]"
    by code_simp
  then have c2: "\<forall>p\<in>set cookiePatterns. \<forall>g. exec p (normalize bearerOnly) = Some g \<longrightarrow> g = []"
    by (simp add: cookiePatterns_def)
  from parseCurlCommand_names_missing [of bearerOnly, THEN conjunct1, rule_format, OF c2 [rule_format]] a1
  have 3: "parseCurlCommand bearerOnly = Inl (CannotExtract [''Cookie''])"
    by simp
  have l4: "map (\<lambda>p. exec p (normalize ''curl https://x.cn'')) authPatterns = [None, None, None, None]"
    by code_simp
  then have "\<forall>p\<in>set authPatterns. exec p (normalize ''curl https://x.cn'') = None"
    by (simp add: authPatterns_def)
  then have a4: "\<not> (\<exists>p\<in>set authPatterns. \<exists>g. exec p (normalize ''curl https://x.cn'') = Some g \<and> g \<noteq> [])"
    by auto
  have l5: "map (\<lambda>p. exec p (normalize ''curl https://x.cn'')) cookiePatterns = [None, None, None, None, None, None, None, None]"
    by code_simp
  then have c5: "\<forall>p\<in>set cookiePatterns. \<forall>g. exec p (normalize ''curl https://x.cn'') = Some g \<longrightarrow> g = []"
    by (simp add: cookiePatterns_def)
  from parseCurlCommand_names_missing [of "''curl https://x.cn''", THEN conjunct1, rule_format, OF c5 [rule_format]] a4
  have 6: "parseCurlCommand ''curl https://x.cn'' = Inl (CannotExtract [''Authorization'', ''Cookie''])"
    by simp
  have l7: "map (\<lambda>p. exec p (normalize bearerAndCookie)) authPatterns = [Some ''abc'', None, None, None]"
    by code_simp
  then have "exec (bearer ''-H'' sq) (normalize bearerAndCookie) = Some ''abc''"
    by (simp add: authPatterns_def)
  with m have a7: "\<exists>p\<in>set authPatterns. \<exists>g. exec p (normalize bearerAndCookie) = Some g \<and> g \<noteq> []"
    by (intro bexI [of _ "bearer ''-H'' sq"]) auto
  have l8: "map (\<lambda>p. exec p (normalize bearerAndCookie)) cookiePatterns = [Some ''k=v'', None, None, None, None, None, None, None]"
    by code_simp
  then have e8: "exec (cookieFlag ''-b'' sq) (normalize bearerAndCookie) = Some ''k=v''"
    by (simp add: cookiePatterns_def)
  have s8: "cookiePatterns = [] @ cookieFlag ''-b'' sq #
      [cookieFlag ''-b'' dq, cookieFlag ''--cookie'' sq, cookieFlag ''--cookie'' dq,
       cookieHeader ''-H'' sq, cookieHeader ''-H'' dq,
       cookieHeader ''--header'' sq, cookieHeader ''--header'' dq]"
    by (simp add: cookiePatterns_def)
  have t9: "trim ''k=v'' = ''k=v''" by code_simp
  have p8: "\<forall>q\<in>set []. \<forall>h. exec q (normalize bearerAndCookie) = Some h \<longrightarrow> h = []"
    by simp
  have n8: "''k=v'' \<noteq> []" by simp
  note u = parseCurlCommand_names_missing [of bearerAndCookie, THEN conjunct2, THEN conjunct1, rule_format,
      OF conjI [OF s8 conjI [OF p8 conjI [OF e8 n8]]]]
  from u [THEN conjunct2, THEN conjunct2, rule_format, OF conjI [OF _ a7]] t9
  have 10: "\<exists>a. parseCurlCommand bearerAndCookie = Inr a \<and> cookie a = ''k=v''"
    by simp
  from l1 l2 3 l4 l5 6 l7 l8 t9 10 show ?thesis by blast
qed

end
